theory Spec2Isabelle
  imports Main
begin

section \<open>JavaScript values and string primitives\<close>

text \<open>
  The module \<open>src/app/utils/config-builder.js\<close> handles strings, parsed JSON documents and
  a few configuration settings. Values are modelled by one datatype. A number is kept as
  the text that ECMAScript's \<open>Number::toString\<close> prints for it (\<open>1883\<close> is
  \<open>JNum ''1883''\<close>), so no floating point arithmetic is needed; an object is the list of
  its own enumerable properties in enumeration order.
\<close>

datatype jsval =
    JUndefined
  | JNull
  | JBool bool
  | JNum string
  | JStr string
  | JFunction
  | JArr "jsval list"
  | JObj "(string \<times> jsval) list"

text \<open>\<open>ToBoolean\<close>: what \<open>if(v)\<close> and \<open>!v\<close> test.\<close>

fun truthy :: "jsval \<Rightarrow> bool" where
  "truthy JUndefined = False"
| "truthy JNull = False"
| "truthy (JBool b) = b"
| "truthy (JNum n) = (n \<noteq> ''0'' \<and> n \<noteq> ''NaN'')"
| "truthy (JStr s) = (s \<noteq> [])"
| "truthy JFunction = True"
| "truthy (JArr vs) = True"
| "truthy (JObj kvs) = True"

text \<open>The \<open>typeof\<close> operator.\<close>

fun typeof :: "jsval \<Rightarrow> string" where
  "typeof JUndefined = ''undefined''"
| "typeof JNull = ''object''"
| "typeof (JBool b) = ''boolean''"
| "typeof (JNum n) = ''number''"
| "typeof (JStr s) = ''string''"
| "typeof JFunction = ''function''"
| "typeof (JArr vs) = ''object''"
| "typeof (JObj kvs) = ''object''"

text \<open>
  Strings are lists of characters and are read as ASCII text, the range hardware
  addresses, paths and identifiers are written in. \<open>toUpperCase\<close> and \<open>toLowerCase\<close> map
  the 26 letters and leave every other character as it is.
\<close>

definition lower_letters :: string where
  "lower_letters = ''abcdefghijklmnopqrstuvwxyz''"

definition upper_letters :: string where
  "upper_letters = ''ABCDEFGHIJKLMNOPQRSTUVWXYZ''"

definition upper_char :: "char \<Rightarrow> char" where
  "upper_char c = (case map_of (zip lower_letters upper_letters) c of Some u \<Rightarrow> u | None \<Rightarrow> c)"

definition lower_char :: "char \<Rightarrow> char" where
  "lower_char c = (case map_of (zip upper_letters lower_letters) c of Some l \<Rightarrow> l | None \<Rightarrow> c)"

definition toUpperCase :: "string \<Rightarrow> string" where
  "toUpperCase s = map upper_char s"

definition toLowerCase :: "string \<Rightarrow> string" where
  "toLowerCase s = map lower_char s"

text \<open>\<open>s.replace(/:/g, '')\<close>: every colon is dropped.\<close>

definition removeColons :: "string \<Rightarrow> string" where
  "removeColons s = filter (\<lambda>c. c \<noteq> CHR '':'') s"

text \<open>\<open>Array.prototype.join\<close> on an array of strings.\<close>

fun join :: "string \<Rightarrow> string list \<Rightarrow> string" where
  "join sep [] = []"
| "join sep [x] = x"
| "join sep (x # y # ys) = x @ sep @ join sep (y # ys)"

text \<open>\<open>String.prototype.split\<close> at a one-character separator.\<close>

fun split_on :: "char \<Rightarrow> string \<Rightarrow> string list" where
  "split_on sep [] = [[]]"
| "split_on sep (c # cs) =
     (if c = sep then [] # split_on sep cs
      else (case split_on sep cs of
              [] \<Rightarrow> [[c]]
            | w # ws \<Rightarrow> (c # w) # ws))"

abbreviation LF :: char where
  "LF \<equiv> CHR 0x0A"

section \<open>\<open>JSON.stringify\<close>\<close>

text \<open>
  The serializer of ECMAScript (abstract operations \<open>Quote\<close>, \<open>Str\<close>, \<open>JO\<close>, \<open>JA\<close>) for a
  value without \<open>toJSON\<close> methods, no replacer, and the gap string \<open>gap\<close>. \<open>None\<close> is the
  result \<open>undefined\<close>.
\<close>

definition hex_digit :: "nat \<Rightarrow> char" where
  "hex_digit n = ''0123456789abcdef'' ! (n mod 16)"

definition quote_char :: "char \<Rightarrow> string" where
  "quote_char c =
     (if c = CHR 0x22 then [CHR 0x5C, CHR 0x22]
      else if c = CHR 0x5C then [CHR 0x5C, CHR 0x5C]
      else if c = CHR 0x08 then [CHR 0x5C, CHR ''b'']
      else if c = CHR 0x0C then [CHR 0x5C, CHR ''f'']
      else if c = CHR 0x0A then [CHR 0x5C, CHR ''n'']
      else if c = CHR 0x0D then [CHR 0x5C, CHR ''r'']
      else if c = CHR 0x09 then [CHR 0x5C, CHR ''t'']
      else if (of_char c :: nat) < 32
        then [CHR 0x5C, CHR ''u'', CHR ''0'', CHR ''0'',
              hex_digit ((of_char c :: nat) div 16), hex_digit (of_char c :: nat)]
      else [c])"

definition Quote :: "string \<Rightarrow> string" where
  "Quote s = CHR 0x22 # concat (map quote_char s) @ [CHR 0x22]"

fun Str :: "string \<Rightarrow> string \<Rightarrow> jsval \<Rightarrow> string option" where
  "Str gap indent JUndefined = None"
| "Str gap indent JFunction = None"
| "Str gap indent JNull = Some ''null''"
| "Str gap indent (JBool b) = Some (if b then ''true'' else ''false'')"
| "Str gap indent (JNum n) =
     Some (if n = ''NaN'' \<or> n = ''Infinity'' \<or> n = ''-Infinity'' then ''null'' else n)"
| "Str gap indent (JStr s) = Some (Quote s)"
| "Str gap indent (JArr vs) =
     (let stepback = indent;
          indent' = indent @ gap;
          partial = map (\<lambda>v. case Str gap indent' v of None \<Rightarrow> ''null'' | Some s \<Rightarrow> s) vs
      in Some (if partial = [] then ''[]''
               else if gap = [] then ''['' @ join '','' partial @ '']''
               else ''['' @ [LF] @ indent' @ join ('','' @ [LF] @ indent') partial
                    @ [LF] @ stepback @ '']''))"
| "Str gap indent (JObj kvs) =
     (let stepback = indent;
          indent' = indent @ gap;
          partial = concat (map (\<lambda>p. case Str gap indent' (snd p) of
                                         None \<Rightarrow> []
                                       | Some s \<Rightarrow>
                                           [Quote (fst p) @ '':''
                                            @ (if gap = [] then [] else '' '') @ s]) kvs)
      in Some (if partial = [] then ''{}''
               else if gap = [] then ''{'' @ join '','' partial @ ''}''
               else ''{'' @ [LF] @ indent' @ join ('','' @ [LF] @ indent') partial
                    @ [LF] @ stepback @ ''}''))"

text \<open>\<open>JSON.stringify(value, null, space)\<close> for a numeric \<open>space\<close>.\<close>

definition JSON_stringify :: "jsval \<Rightarrow> nat \<Rightarrow> string option" where
  "JSON_stringify v space = Str (replicate (min 10 space) CHR '' '') [] v"

text \<open>
  Reading a property \<open>v.k\<close> whose name \<open>k\<close> is not a built-in one (the module reads
  \<open>connectorTypes\<close>): \<open>null\<close> and \<open>undefined\<close> raise a \<open>TypeError\<close> (\<open>None\<close>), an object gives
  its own property or \<open>undefined\<close>, and any other value has no such property.
\<close>

fun get_prop :: "jsval \<Rightarrow> string \<Rightarrow> jsval option" where
  "get_prop JUndefined k = None"
| "get_prop JNull k = None"
| "get_prop (JObj kvs) k = (case map_of kvs k of None \<Rightarrow> Some JUndefined | Some v \<Rightarrow> Some v)"
| "get_prop v k = Some JUndefined"

section \<open>Collaborators, errors and effects\<close>

text \<open>
  \<open>GLOBAL.config\<close>, the external settings the module reads. The two settings whose type the
  module itself inspects or copies are kept as values; the others are strings.
\<close>

record config =
  cfg_config_file :: string
  cfg_local_network_gateway :: jsval
  cfg_outbound_network_interface :: string
  cfg_baseline_config_file :: string
  cfg_local_network_interface :: jsval

text \<open>
  What the module calls but does not define: \<open>os.platform()\<close>, \<open>path.resolve\<close>,
  \<open>path.parse(p).dir\<close>, \<open>macaddress.one\<close>, \<open>fs.stat\<close>, \<open>fs.readFile\<close>, \<open>fs.writeFile\<close> and
  \<open>JSON.parse\<close>. Each is a parameter giving the answer the collaborator passes to its
  callback (or returns): \<open>Inl\<close> or \<open>Some\<close> is the error, printed as text. An asynchronous
  collaborator is taken to call its callback exactly once.
\<close>

record sys =
  os_platform :: string
  path_resolve :: "string \<Rightarrow> string"
  path_parse_dir :: "string \<Rightarrow> string"
  macaddress_one :: "string \<Rightarrow> string + jsval"
  fs_stat :: "string \<Rightarrow> string option"
  fs_readFile :: "string \<Rightarrow> string + string"
  fs_writeFile :: "string \<Rightarrow> string \<Rightarrow> string option"
  JSON_parse :: "string \<Rightarrow> string + jsval"

text \<open>
  Every value the module throws or rejects a promise with. A constructor stands for the
  message or exception of one place in the source and carries the arguments formatted
  into it.
\<close>

datatype error =
    InvalidLogger \<comment> \<open>\<open>Invalid logger specified (arg #1)\<close>\<close>
  | InvalidGatewayAddress jsval \<comment> \<open>\<open>Invalid local network gateway address specified: [%s]\<close>\<close>
  | MacLookupFailed string \<comment> \<open>\<open>Unable to get mac address of outbound network interface: [%s]\<close>\<close>
  | TypeError \<comment> \<open>raised by the runtime on a method call or property read of a wrong value\<close>
  | NotApplicable \<comment> \<open>\<open>Config file is not applicable on current platform\<close>\<close>
  | DirNotFound string string \<comment> \<open>\<open>Unable to find directory: [%s]\<close>, directory and \<open>fs.stat\<close> error\<close>
  | WriteError string string \<comment> \<open>\<open>Error writing to file: [%s]\<close>, path and \<open>fs.writeFile\<close> error\<close>
  | ReadError string \<comment> \<open>the error of \<open>fs.readFile\<close>, passed on as it is\<close>
  | SyntaxError string \<comment> \<open>the exception of \<open>JSON.parse\<close>, passed on as it is\<close>

datatype level = LDebug | LInfo | LError

text \<open>
  The observable effects, in the order they happen. \<open>Log l f\<close> is a call of the logger at
  level \<open>l\<close> with format string \<open>f\<close> (its arguments are not recorded); \<open>LogError e\<close> is
  \<open>logger.error\<close> called with an already built message or a caught exception. The other
  events are the calls of the hardware lookup and of the file system.
\<close>

datatype event =
    Log level string
  | LogError error
  | HwLookup string
  | Stat string
  | ReadFile string
  | WriteFile string string

text \<open>
  The state of a promise once every callback has run: fulfilled, rejected, or never
  settled because nothing resolves or rejects its deferred.
\<close>

datatype 'a outcome = Resolved 'a | Rejected error | Pending

text \<open>The file writes, hardware lookups and logger calls of a trace.\<close>

fun writes :: "event list \<Rightarrow> (string \<times> string) list" where
  "writes [] = []"
| "writes (WriteFile p d # es) = (p, d) # writes es"
| "writes (e # es) = writes es"

fun lookups :: "event list \<Rightarrow> string list" where
  "lookups [] = []"
| "lookups (HwLookup i # es) = i # lookups es"
| "lookups (e # es) = lookups es"

fun is_log :: "event \<Rightarrow> bool" where
  "is_log (Log l f) = True"
| "is_log (LogError e) = True"
| "is_log e = False"

section \<open>The class \<open>ConfigBuilder\<close>\<close>

record builder =
  logger :: jsval
  platform :: string
  gatewayId :: "string option"
  localNetworkGatewayIP :: jsval

text \<open>
  The module-level table. \<open>_path.resolve('./.tmp/hostapd.conf')\<close> is evaluated when the
  module is loaded.
\<close>

definition CONFIG_PATHS :: "config \<Rightarrow> sys \<Rightarrow> (string \<times> (string \<times> string) list) list" where
  "CONFIG_PATHS cfg sys =
     [(''hostapd_conf'',
         [(''linux'', ''/etc/hostapd/hostapd.conf''),
          (''darwin'', path_resolve sys ''./.tmp/hostapd.conf'')]),
      (''gateway_agent_conf'',
         [(''linux'', cfg_config_file cfg),
          (''darwin'', cfg_config_file cfg)])]"

text \<open>
  Whether a value answers to a method call \<open>v.k(...)\<close>: an object does when the property is
  a function; on anything else the call raises a \<open>TypeError\<close>.
\<close>

fun has_method :: "jsval \<Rightarrow> string \<Rightarrow> bool" where
  "has_method (JObj kvs) k = (map_of kvs k = Some JFunction)"
| "has_method v k = False"

text \<open>
  The constructor: \<open>Inl\<close> is the exception thrown, \<open>Inr\<close> the new instance. The first guard
  \<open>!logger || typeof logger !== 'object'\<close> rejects every falsy value, \<open>null\<close> among them, and
  every value that is not an object. Before the second guard throws it calls
  \<open>this._logger.error(message)\<close>, which itself raises a \<open>TypeError\<close> when the accepted logger
  has no method \<open>error\<close>. In the methods of an instance the logger is taken to have the
  methods \<open>debug\<close>, \<open>info\<close> and \<open>error\<close>.
\<close>

definition ConfigBuilder :: "config \<Rightarrow> sys \<Rightarrow> jsval \<Rightarrow> (error + builder) \<times> event list" where
  "ConfigBuilder cfg sys lg =
     (if \<not> truthy lg \<or> typeof lg \<noteq> ''object'' then (Inl InvalidLogger, [])
      else
        (let ip = cfg_local_network_gateway cfg in
         if typeof ip \<noteq> ''string'' \<or> (case ip of JStr s \<Rightarrow> length s \<le> 0 | _ \<Rightarrow> True)
         then (if has_method lg ''error''
               then (Inl (InvalidGatewayAddress ip), [LogError (InvalidGatewayAddress ip)])
               else (Inl TypeError, []))
         else (Inr \<lparr>logger = lg, platform = os_platform sys, gatewayId = None,
                    localNetworkGatewayIP = ip\<rparr>, [])))"

text \<open>
  \<open>_getGatewayId\<close>. The cache test \<open>if(this._gatewayId)\<close> is a truthiness test: \<open>null\<close> and
  the empty string both fail it. \<open>mac.replace\<close> raises a \<open>TypeError\<close> when \<open>mac\<close> is not a
  string, which the \<open>try\<close> block catches.
\<close>

definition cached :: "string option \<Rightarrow> bool" where
  "cached g = (case g of None \<Rightarrow> False | Some s \<Rightarrow> s \<noteq> [])"

definition getGatewayId :: "config \<Rightarrow> sys \<Rightarrow> builder \<Rightarrow> string outcome \<times> builder \<times> event list" where
  "getGatewayId cfg sys b =
     (case (if cached (gatewayId b) then gatewayId b else None) of
        Some g \<Rightarrow> (Resolved g, b, [])
      | None \<Rightarrow>
          (let iface = cfg_outbound_network_interface cfg in
           case macaddress_one sys iface of
             Inl err \<Rightarrow>
               (Rejected (MacLookupFailed iface), b,
                [HwLookup iface, LogError (MacLookupFailed iface)])
           | Inr mac \<Rightarrow>
               (case mac of
                  JStr m \<Rightarrow>
                    (let g = toUpperCase (removeColons m)
                     in (Resolved g, b\<lparr>gatewayId := Some g\<rparr>, [HwLookup iface]))
                | _ \<Rightarrow> (Rejected TypeError, b, [HwLookup iface, LogError TypeError]))))"

text \<open>
  \<open>_getConfigPath\<close>: \<open>None\<close> is \<open>null\<close>. Both \<open>!configInfo\<close> tests are truthiness tests, which
  an empty path fails. The table is looked up by its own properties; target and platform
  names are not names of properties inherited from \<open>Object.prototype\<close>.
\<close>

definition getConfigPath :: "config \<Rightarrow> sys \<Rightarrow> builder \<Rightarrow> string \<Rightarrow> string option \<times> event list" where
  "getConfigPath cfg sys b target =
     (case map_of (CONFIG_PATHS cfg sys) target of
        None \<Rightarrow> (None, [Log LError ''Unable to determine config file path for target: [%s]''])
      | Some configInfo \<Rightarrow>
          (case map_of configInfo (platform b) of
             None \<Rightarrow>
               (None, [Log LError ''Config target [%s] not defined for current platform: [%s]''])
           | Some p \<Rightarrow>
               if p = []
               then (None,
                     [Log LError ''Config target [%s] not defined for current platform: [%s]''])
               else (Some p, [])))"

text \<open>\<open>_readExistingConfig\<close>. Without \<open>parse\<close> the raw content is the result.\<close>

definition readExistingConfig :: "sys \<Rightarrow> string \<Rightarrow> bool \<Rightarrow> jsval outcome \<times> event list" where
  "readExistingConfig sys path parse =
     (let t = [Log LDebug ''Obtaining existing configuration from: [%s]'', ReadFile path] in
      case fs_readFile sys path of
        Inl err \<Rightarrow>
          (Rejected (ReadError err),
           t @ [Log LError ''Error reading existing configuration file: [%s]''])
      | Inr data \<Rightarrow>
          if parse then
            (case JSON_parse sys data of
               Inl ex \<Rightarrow>
                 (Rejected (SyntaxError ex),
                  t @ [Log LError ''Error parsing existing configuration file: [%s]''])
             | Inr config \<Rightarrow> (Resolved config, t))
          else (Resolved (JStr data), t))"

text \<open>
  \<open>_ensureConfig\<close> and \<open>_writeConfig\<close> return the outcome of their promise and two lists of
  events: those of the call itself (path resolution and the start of \<open>fs.stat\<close>), and those
  of the callbacks that run later. A caller that drops the promise goes on between the two.
\<close>

definition ensureConfig ::
  "config \<Rightarrow> sys \<Rightarrow> builder \<Rightarrow> string \<Rightarrow> string outcome \<times> event list \<times> event list" where
  "ensureConfig cfg sys b target =
     (case getConfigPath cfg sys b target of
        (None, t) \<Rightarrow> (Rejected NotApplicable, t, [])
      | (Some path, t) \<Rightarrow>
          (let dir = path_parse_dir sys path in
           case fs_stat sys dir of
             Some err \<Rightarrow>
               (Rejected (DirNotFound dir err), t @ [Stat dir], [LogError (DirNotFound dir err)])
           | None \<Rightarrow>
               (Resolved path, t @ [Stat dir],
                [Log LDebug ''Parent directory for file exists: [%s]''])))"

text \<open>
  In \<open>_writeConfig\<close> the call \<open>this._ensureConfig(target).then(...)\<close> has a fulfilment
  callback only, and nothing else settles \<open>def\<close>: when \<open>_ensureConfig\<close> rejects, the
  returned promise is never settled. After a failed write \<open>def.reject\<close> is followed by the
  success log lines and by \<open>def.resolve\<close>, which has no effect on a rejected deferred.
\<close>

definition writeConfig ::
  "config \<Rightarrow> sys \<Rightarrow> builder \<Rightarrow> string \<Rightarrow> string \<Rightarrow> unit outcome \<times> event list \<times> event list" where
  "writeConfig cfg sys b target data =
     (case ensureConfig cfg sys b target of
        (Resolved path, now, later) \<Rightarrow>
          (case fs_writeFile sys path data of
             Some err \<Rightarrow>
               (Rejected (WriteError path err), now,
                later @ [Log LDebug ''Writing config data to file: [%s]'', WriteFile path data,
                         LogError (WriteError path err),
                         Log LInfo ''Config file written successfully: [%s]'',
                         Log LDebug ''Config data: [%s]''])
           | None \<Rightarrow>
               (Resolved (), now,
                later @ [Log LDebug ''Writing config data to file: [%s]'', WriteFile path data,
                         Log LInfo ''Config file written successfully: [%s]'',
                         Log LDebug ''Config data: [%s]'']))
      | (Rejected e, now, later) \<Rightarrow> (Pending, now, later)
      | (Pending, now, later) \<Rightarrow> (Pending, now, later))"

text \<open>
  \<open>generateHostApConfig\<close>. The optional \<open>requestId\<close> only appears in log arguments. The
  first callback returns the promise of \<open>_writeConfig\<close>, so the generator's promise follows
  it.
\<close>

definition hostApConfig :: "string \<Rightarrow> string list" where
  "hostApConfig gid =
     [''interface=wlan0'',
      [],
      ''ssid='' @ gid,
      ''wpa_passphrase='' @ toLowerCase gid,
      ''channel=6'',
      [],
      ''wmm_enabled=1'',
      ''wpa=1'',
      ''wpa_key_mgmt=WPA-PSK'',
      ''wpa_pairwise=TKIP'',
      ''rsn_pairwise=CCMP'',
      ''macaddr_acl=0'',
      ''auth_algs=1'']"

definition generateHostApConfig ::
  "config \<Rightarrow> sys \<Rightarrow> builder \<Rightarrow> unit outcome \<times> builder \<times> event list" where
  "generateHostApConfig cfg sys b =
     (let t0 = [Log LDebug ''Generating host ap configuration. RequestId: [%s]''] in
      case getGatewayId cfg sys b of
        (Resolved gid, b1, t1) \<Rightarrow>
          (case writeConfig cfg sys b1 ''hostapd_conf'' (join [LF] (hostApConfig gid)) of
             (Resolved u, now, later) \<Rightarrow>
               (Resolved (), b1,
                t0 @ t1 @ now @ later
                @ [Log LInfo ''Host AP configuration updated successfully. RequestId: [%s]''])
           | (Rejected err, now, later) \<Rightarrow>
               (Rejected err, b1,
                t0 @ t1 @ now @ later
                @ [Log LError ''Error updating host ap configuration. RequestId: [%s]''])
           | (Pending, now, later) \<Rightarrow> (Pending, b1, t0 @ t1 @ now @ later))
      | (Rejected err, b1, t1) \<Rightarrow>
          (Rejected err, b1,
           t0 @ t1 @ [Log LError ''Error updating host ap configuration. RequestId: [%s]''])
      | (Pending, b1, t1) \<Rightarrow> (Pending, b1, t0 @ t1))"

text \<open>
  \<open>generateGatewayAgentConfig\<close>. \<open>newConfig\<close> is the object the second callback builds: the
  literal with the property \<open>connectorTypes\<close> and two empty objects, then one property added
  to \<open>cloudConnectors\<close> and one to \<open>deviceConnectors\<close>; \<open>connectors\<close> is the list of the second
  and third property as they are in the end.
\<close>

definition connectors :: "config \<Rightarrow> builder \<Rightarrow> string \<Rightarrow> (string \<times> jsval) list" where
  "connectors cfg b gid =
     [(''deviceConnectors'',
         JObj [(gid @ ''-cnc-gateway'',
                JObj [(''type'', JStr ''CncGateway''),
                      (''config'', JObj [])])]),
      (''cloudConnectors'',
         JObj [(gid @ ''-cnc-cloud'',
                JObj [(''type'', JStr ''CncCloud''),
                      (''config'',
                         JObj [(''host'', localNetworkGatewayIP b),
                               (''port'', JNum ''1883''),
                               (''protocol'', JStr ''mqtt''),
                               (''account'', JStr gid),
                               (''networkInterface'', cfg_local_network_interface cfg),
                               (''gatewayname'', JStr gid),
                               (''topics'', JStr [])])])])]"

definition newConfig :: "config \<Rightarrow> builder \<Rightarrow> string \<Rightarrow> jsval \<Rightarrow> jsval" where
  "newConfig cfg b gid connectorTypes =
     JObj ((''connectorTypes'', connectorTypes) # connectors cfg b gid)"

text \<open>
  \<open>JSON.stringify\<close> of an object is always a string (lemma \<open>stringify_object\<close> below), so
  the payload is that string.
\<close>

definition payload_of :: "jsval \<Rightarrow> string" where
  "payload_of v = (case JSON_stringify v 4 of Some s \<Rightarrow> s | None \<Rightarrow> ''undefined'')"

text \<open>
  The third callback calls \<open>this._writeConfig('gateway_agent_conf', payload)\<close> and does not
  return its promise: the callback's result is \<open>undefined\<close>, the chain goes on to the success
  callback at once, and the stat and the write happen afterwards, whatever their result.
\<close>

definition generateGatewayAgentConfig ::
  "config \<Rightarrow> sys \<Rightarrow> builder \<Rightarrow> unit outcome \<times> builder \<times> event list" where
  "generateGatewayAgentConfig cfg sys b =
     (let t0 = [Log LDebug ''Generating gateway agent configuration. RequestId: [%s]''];
          failed = [Log LError ''Error updating gateway agent configuration. RequestId: [%s]'']
      in
      case getGatewayId cfg sys b of
        (Resolved gid, b1, t1) \<Rightarrow>
          (case readExistingConfig sys (cfg_baseline_config_file cfg) True of
             (Resolved config, t2) \<Rightarrow>
               (case get_prop config ''connectorTypes'' of
                  None \<Rightarrow> (Rejected TypeError, b1, t0 @ t1 @ t2 @ failed)
                | Some connectorTypes \<Rightarrow>
                    (let payload = payload_of (newConfig cfg b1 gid connectorTypes) in
                     case writeConfig cfg sys b1 ''gateway_agent_conf'' payload of
                       (dropped, now, later) \<Rightarrow>
                         (Resolved (), b1,
                          t0 @ t1 @ t2 @ now
                          @ [Log LInfo
                               ''Gateway agent configuration updated successfully. RequestId: [%s]'']
                          @ later)))
           | (Rejected err, t2) \<Rightarrow> (Rejected err, b1, t0 @ t1 @ t2 @ failed)
           | (Pending, t2) \<Rightarrow> (Pending, b1, t0 @ t1 @ t2))
      | (Rejected err, b1, t1) \<Rightarrow> (Rejected err, b1, t0 @ t1 @ failed)
      | (Pending, b1, t1) \<Rightarrow> (Pending, b1, t0 @ t1))"

section \<open>Hardware addresses and lines of text\<close>

definition is_hex :: "char \<Rightarrow> bool" where
  "is_hex c = (c \<in> set ''0123456789abcdefABCDEF'')"

definition is_upper_hex :: "char \<Rightarrow> bool" where
  "is_upper_hex c = (c \<in> set ''0123456789ABCDEF'')"

text \<open>Six octets of two hexadecimal digits each, separated by colons.\<close>

definition valid_mac :: "string \<Rightarrow> bool" where
  "valid_mac m =
     (let octets = split_on CHR '':'' m
      in length octets = 6 \<and> list_all (\<lambda>w. length w = 2 \<and> list_all is_hex w) octets)"

text \<open>The lines of a text, and how many of them are blank.\<close>

definition lines_of :: "string \<Rightarrow> string list" where
  "lines_of txt = split_on LF txt"

definition blank_lines :: "string list \<Rightarrow> nat" where
  "blank_lines ls = length (filter (\<lambda>l. l = []) ls)"

text \<open>The path a target is configured with on a platform, when the table has one.\<close>

definition configured_path :: "config \<Rightarrow> sys \<Rightarrow> string \<Rightarrow> string \<Rightarrow> string option" where
  "configured_path cfg sys target plat =
     (case map_of (CONFIG_PATHS cfg sys) target of
        None \<Rightarrow> None
      | Some configInfo \<Rightarrow> map_of configInfo plat)"

text \<open>
  Successive calls of \<open>_getGatewayId\<close> on one instance, each with the settings and the
  collaborators of its moment: the outcome and the trace of every call.
\<close>

fun getGatewayId_calls :: "(config \<times> sys) list \<Rightarrow> builder \<Rightarrow> (string outcome \<times> event list) list" where
  "getGatewayId_calls [] b = []"
| "getGatewayId_calls (env # envs) b =
     (case getGatewayId (fst env) (snd env) b of
        (out, b1, t) \<Rightarrow> (out, t) # getGatewayId_calls envs b1)"

section \<open>A sample installation\<close>

text \<open>
  A Linux gateway with interface \<open>eth0\<close>, the directories \<open>/etc/hostapd\<close> and \<open>/etc/iot\<close>, and
  the baseline document \<open>{"connectorTypes":["X"]}\<close>. \<open>posix_dir\<close> is the directory part of a
  path without trailing slash; \<open>parse0\<close> knows the documents used below.
\<close>

definition posix_dir :: "string \<Rightarrow> string" where
  "posix_dir p =
     (let d = rev (drop 1 (dropWhile (\<lambda>c. c \<noteq> CHR ''/'') (rev p)))
      in if d = [] \<and> take 1 p = ''/'' then ''/'' else d)"

definition baseline_text :: string where
  "baseline_text = ''{'' @ Quote ''connectorTypes'' @ '':['' @ Quote ''X'' @ '']}''"

definition parse0 :: "string \<Rightarrow> string + jsval" where
  "parse0 s =
     (if s = baseline_text then Inr (JObj [(''connectorTypes'', JArr [JStr ''X''])])
      else if s = ''{}'' then Inr (JObj [])
      else if s = ''null'' then Inr JNull
      else Inl ''Unexpected token'')"

definition sys0 :: sys where
  "sys0 =
     \<lparr>os_platform = ''linux'',
      path_resolve = (\<lambda>p. ''/opt/iot-client'' @ drop 1 p),
      path_parse_dir = posix_dir,
      macaddress_one =
        (\<lambda>i. if i = ''eth0'' then Inr (JStr ''de:ad:00:11:22:33'') else Inl ''no such interface''),
      fs_stat = (\<lambda>d. if d = ''/etc/hostapd'' \<or> d = ''/etc/iot'' then None else Some ''ENOENT''),
      fs_readFile =
        (\<lambda>p. if p = ''/etc/iot/baseline.json'' then Inr baseline_text else Inl ''ENOENT''),
      fs_writeFile = (\<lambda>p d. None),
      JSON_parse = parse0\<rparr>"

definition cfg0 :: config where
  "cfg0 =
     \<lparr>cfg_config_file = ''/etc/iot/agent.json'',
      cfg_local_network_gateway = JStr ''10.0.0.1'',
      cfg_outbound_network_interface = ''eth0'',
      cfg_baseline_config_file = ''/etc/iot/baseline.json'',
      cfg_local_network_interface = JStr ''wlan0''\<rparr>"

definition logger0 :: jsval where
  "logger0 = JObj [(''debug'', JFunction), (''info'', JFunction), (''error'', JFunction)]"

definition b0 :: builder where
  "b0 = \<lparr>logger = logger0, platform = ''linux'', gatewayId = None,
         localNetworkGatewayIP = JStr ''10.0.0.1''\<rparr>"

text \<open>Variations of the sample installation.\<close>

definition sys_nodir :: sys where
  "sys_nodir = sys0\<lparr>fs_stat := (\<lambda>d. Some ''ENOENT'')\<rparr>"

definition sys_wfail :: sys where
  "sys_wfail = sys0\<lparr>fs_writeFile := (\<lambda>p d. Some ''EACCES'')\<rparr>"

definition sys_badjson :: sys where
  "sys_badjson = sys0\<lparr>fs_readFile := (\<lambda>p. Inr ''{oops'')\<rparr>"

definition sys_nokey :: sys where
  "sys_nokey = sys0\<lparr>fs_readFile := (\<lambda>p. Inr ''{}'')\<rparr>"

definition sys_nomac :: sys where
  "sys_nomac = sys0\<lparr>macaddress_one := (\<lambda>i. Inl ''no such interface'')\<rparr>"

definition sys_emptymac :: sys where
  "sys_emptymac = sys0\<lparr>macaddress_one := (\<lambda>i. Inr (JStr []))\<rparr>"

definition cfg_nofile :: config where
  "cfg_nofile = cfg0\<lparr>cfg_config_file := []\<rparr>"

definition b1 :: builder where
  "b1 = b0\<lparr>gatewayId := Some ''DEAD00112233''\<rparr>"

text \<open>
  The gateway agent configuration expected for identity \<open>DEAD00112233\<close>, line by line, with
  and without the \<open>connectorTypes\<close> of the baseline.
\<close>

definition quoted :: "string \<Rightarrow> string" where
  "quoted s = [CHR 0x22] @ s @ [CHR 0x22]"

definition connectors_text0 :: "string list" where
  "connectors_text0 =
     [''    '' @ quoted ''deviceConnectors'' @ '': {'',
      ''        '' @ quoted ''DEAD00112233-cnc-gateway'' @ '': {'',
      ''            '' @ quoted ''type'' @ '': '' @ quoted ''CncGateway'' @ '','',
      ''            '' @ quoted ''config'' @ '': {}'',
      ''        }'',
      ''    },'',
      ''    '' @ quoted ''cloudConnectors'' @ '': {'',
      ''        '' @ quoted ''DEAD00112233-cnc-cloud'' @ '': {'',
      ''            '' @ quoted ''type'' @ '': '' @ quoted ''CncCloud'' @ '','',
      ''            '' @ quoted ''config'' @ '': {'',
      ''                '' @ quoted ''host'' @ '': '' @ quoted ''10.0.0.1'' @ '','',
      ''                '' @ quoted ''port'' @ '': 1883,'',
      ''                '' @ quoted ''protocol'' @ '': '' @ quoted ''mqtt'' @ '','',
      ''                '' @ quoted ''account'' @ '': '' @ quoted ''DEAD00112233'' @ '','',
      ''                '' @ quoted ''networkInterface'' @ '': '' @ quoted ''wlan0'' @ '','',
      ''                '' @ quoted ''gatewayname'' @ '': '' @ quoted ''DEAD00112233'' @ '','',
      ''                '' @ quoted ''topics'' @ '': '' @ quoted [],
      ''            }'',
      ''        }'',
      ''    }'',
      ''}'']"

definition agent_text0 :: string where
  "agent_text0 =
     join [LF]
       ([''{'',
         ''    '' @ quoted ''connectorTypes'' @ '': ['',
         ''        '' @ quoted ''X'',
         ''    ],''] @ connectors_text0)"

definition agent_text_nokey :: string where
  "agent_text_nokey = join [LF] (''{'' # connectors_text0)"

text \<open>
  An instance whose cache holds the identity \<open>AABBCCDDEEFF\<close>, and the access point
  configuration expected for it, character by character.
\<close>

definition b2 :: builder where
  "b2 = b0\<lparr>gatewayId := Some ''AABBCCDDEEFF''\<rparr>"

definition hostapd_text0 :: string where
  "hostapd_text0 =
     ''interface=wlan0'' @ [LF]
     @ [LF]
     @ ''ssid=AABBCCDDEEFF'' @ [LF]
     @ ''wpa_passphrase=aabbccddeeff'' @ [LF]
     @ ''channel=6'' @ [LF]
     @ [LF]
     @ ''wmm_enabled=1'' @ [LF]
     @ ''wpa=1'' @ [LF]
     @ ''wpa_key_mgmt=WPA-PSK'' @ [LF]
     @ ''wpa_pairwise=TKIP'' @ [LF]
     @ ''rsn_pairwise=CCMP'' @ [LF]
     @ ''macaddr_acl=0'' @ [LF]
     @ ''auth_algs=1''"

section \<open>Properties\<close>

subsection \<open>Basic facts about traces and serialization\<close>

lemma writes_append: "writes (xs @ ys) = writes xs @ writes ys"
  by (induction xs rule: writes.induct) simp_all

lemma getConfigPath_logs_only: "list_all is_log (snd (getConfigPath cfg sys b target))"
  by (simp add: getConfigPath_def split: option.splits)

lemma writes_logs_only: "list_all is_log t \<Longrightarrow> writes t = []"
  by (induction t rule: writes.induct) simp_all

lemma getConfigPath_writes: "getConfigPath cfg sys b target = (r, t) \<Longrightarrow> writes t = []"
  using getConfigPath_logs_only [of cfg sys b target] by (simp add: writes_logs_only)

lemma ensureConfig_writes:
  "ensureConfig cfg sys b target = (out, now, later) \<Longrightarrow> writes now = [] \<and> writes later = []"
  by (auto simp: ensureConfig_def Let_def writes_append dest: getConfigPath_writes
           split: prod.splits option.splits)

lemma ensureConfig_rejects:
  assumes "fst (getConfigPath cfg sys b target) = None
           \<or> (\<exists>path err. fst (getConfigPath cfg sys b target) = Some path
                \<and> fs_stat sys (path_parse_dir sys path) = Some err)"
  shows "\<exists>e. fst (ensureConfig cfg sys b target) = Rejected e"
  using assms by (auto simp: ensureConfig_def Let_def split: prod.splits option.splits)

lemma writeConfig_writes:
  "writeConfig cfg sys b target data = (out, now, later) \<Longrightarrow>
   writes (now @ later) =
     (case fst (ensureConfig cfg sys b target) of
        Resolved path \<Rightarrow> [(path, data)]
      | Rejected e \<Rightarrow> []
      | Pending \<Rightarrow> [])"
  by (auto simp: writeConfig_def writes_append dest: ensureConfig_writes
           split: prod.splits option.splits outcome.splits)

lemma getGatewayId_writes: "getGatewayId cfg sys b = (out, b', t) \<Longrightarrow> writes t = []"
  by (auto simp: getGatewayId_def Let_def split: option.splits sum.splits jsval.splits if_splits)

lemma getGatewayId_settles: "fst (getGatewayId cfg sys b) \<noteq> Pending"
  by (auto simp: getGatewayId_def Let_def split: option.splits sum.splits jsval.splits if_splits)

lemma getGatewayId_keeps_fields:
  "getGatewayId cfg sys b = (out, b', t) \<Longrightarrow>
   platform b' = platform b \<and> localNetworkGatewayIP b' = localNetworkGatewayIP b
   \<and> logger b' = logger b"
  by (auto simp: getGatewayId_def Let_def split: option.splits sum.splits jsval.splits if_splits)

lemma stringify_object: "\<exists>s. JSON_stringify (JObj kvs) n = Some s"
  by (simp add: JSON_stringify_def Let_def)

lemma stringify_skips_undefined:
  "JSON_stringify (JObj ((k, JUndefined) # kvs)) n = JSON_stringify (JObj kvs) n"
  by (simp add: JSON_stringify_def Let_def)

subsection \<open>Writing a configuration file\<close>

text \<open>
  Claim C6. For every target: when path resolution gives \<open>null\<close>, or when \<open>fs.stat\<close> of the
  parent directory of the resolved path fails, \<open>_writeConfig\<close> never calls \<open>fs.writeFile\<close>;
  neither its own call nor any later callback contains a file write, so no file is created,
  truncated or modified.
\<close>

theorem writeConfig_no_write_when_check_fails:
  assumes "fst (getConfigPath cfg sys b target) = None
           \<or> (\<exists>path err. fst (getConfigPath cfg sys b target) = Some path
                \<and> fs_stat sys (path_parse_dir sys path) = Some err)"
  shows "case writeConfig cfg sys b target data of (out, now, later) \<Rightarrow> writes (now @ later) = []"
proof -
  obtain out now later where w: "writeConfig cfg sys b target data = (out, now, later)"
    by (cases "writeConfig cfg sys b target data") auto
  from ensureConfig_rejects [OF assms] obtain e
    where "fst (ensureConfig cfg sys b target) = Rejected e" ..
  with writeConfig_writes [OF w] have "writes (now @ later) = []" by simp
  with w show ?thesis by simp
qed

theorem writeConfig_no_write_when_check_fails_witness:
  "(fst (getConfigPath cfg0 sys0 b0 ''wifi_conf'') = None
    \<and> (case writeConfig cfg0 sys0 b0 ''wifi_conf'' ''x'' of
          (out, now, later) \<Rightarrow> writes (now @ later) = []))
   \<and> (fst (getConfigPath cfg0 sys_nodir b0 ''hostapd_conf'') = Some ''/etc/hostapd/hostapd.conf''
      \<and> fs_stat sys_nodir (path_parse_dir sys_nodir ''/etc/hostapd/hostapd.conf'') = Some ''ENOENT''
      \<and> (case writeConfig cfg0 sys_nodir b0 ''hostapd_conf'' ''x'' of
            (out, now, later) \<Rightarrow> writes (now @ later) = []))"
proof -
  have h1: "fst (getConfigPath cfg0 sys0 b0 ''wifi_conf'') = None"
    by (simp add: getConfigPath_def CONFIG_PATHS_def)
  have h2: "fst (getConfigPath cfg0 sys_nodir b0 ''hostapd_conf'') = Some ''/etc/hostapd/hostapd.conf''"
    by (simp add: getConfigPath_def CONFIG_PATHS_def b0_def)
  have h3: "fs_stat sys_nodir (path_parse_dir sys_nodir ''/etc/hostapd/hostapd.conf'') = Some ''ENOENT''"
    by (simp add: sys_nodir_def)
  have c1: "case writeConfig cfg0 sys0 b0 ''wifi_conf'' ''x'' of
              (out, now, later) \<Rightarrow> writes (now @ later) = []"
    by (rule writeConfig_no_write_when_check_fails) (simp add: h1)
  have c2: "case writeConfig cfg0 sys_nodir b0 ''hostapd_conf'' ''x'' of
              (out, now, later) \<Rightarrow> writes (now @ later) = []"
    by (rule writeConfig_no_write_when_check_fails) (simp add: h2 h3)
  from h1 h2 h3 c1 c2 show ?thesis by blast
qed

subsection \<open>The constructor and the baseline document\<close>

text \<open>
  Claim C9. The constructor throws, in the call itself, whenever the logger argument is
  missing (\<open>undefined\<close>, \<open>null\<close> or any other falsy value) or is not an object, and whenever
  the configured local network gateway address is missing, is not a string or is the empty
  string; no instance is produced in any of these cases. A rejected logger gives the
  exception \<open>Invalid logger specified\<close> and nothing is logged; an accepted logger with a
  rejected address gives \<open>Invalid local network gateway address specified\<close>, logged at error
  level first, or the \<open>TypeError\<close> of that log call when the logger has no method \<open>error\<close>.
\<close>

theorem ConfigBuilder_rejects_invalid_input:
  assumes "\<not> truthy lg \<or> typeof lg \<noteq> ''object''
           \<or> typeof (cfg_local_network_gateway cfg) \<noteq> ''string''
           \<or> cfg_local_network_gateway cfg = JStr []"
  shows "(\<exists>e. fst (ConfigBuilder cfg sys lg) = Inl e)
         \<and> (\<forall>inst. fst (ConfigBuilder cfg sys lg) \<noteq> Inr inst)
         \<and> (\<not> truthy lg \<or> typeof lg \<noteq> ''object''
              \<longrightarrow> ConfigBuilder cfg sys lg = (Inl InvalidLogger, []))
         \<and> (truthy lg \<and> typeof lg = ''object'' \<and> has_method lg ''error''
              \<longrightarrow> ConfigBuilder cfg sys lg
                  = (Inl (InvalidGatewayAddress (cfg_local_network_gateway cfg)),
                     [LogError (InvalidGatewayAddress (cfg_local_network_gateway cfg))]))
         \<and> (truthy lg \<and> typeof lg = ''object'' \<and> \<not> has_method lg ''error''
              \<longrightarrow> ConfigBuilder cfg sys lg = (Inl TypeError, []))"
proof -
  have bad: "\<not> truthy lg \<or> typeof lg \<noteq> ''object''
             \<or> typeof (cfg_local_network_gateway cfg) \<noteq> ''string''
             \<or> (case cfg_local_network_gateway cfg of JStr s \<Rightarrow> length s \<le> 0 | _ \<Rightarrow> True)"
    using assms by auto
  show ?thesis
  proof (cases "\<not> truthy lg \<or> typeof lg \<noteq> ''object''")
    case True
    then have "ConfigBuilder cfg sys lg = (Inl InvalidLogger, [])"
      by (simp add: ConfigBuilder_def)
    with True show ?thesis by auto
  next
    case False
    with bad have gw: "typeof (cfg_local_network_gateway cfg) \<noteq> ''string''
        \<or> (case cfg_local_network_gateway cfg of JStr s \<Rightarrow> length s \<le> 0 | _ \<Rightarrow> True)"
      by blast
    show ?thesis
    proof (cases "has_method lg ''error''")
      case True
      with False gw have "ConfigBuilder cfg sys lg
          = (Inl (InvalidGatewayAddress (cfg_local_network_gateway cfg)),
             [LogError (InvalidGatewayAddress (cfg_local_network_gateway cfg))])"
        by (simp add: ConfigBuilder_def Let_def)
      with False True show ?thesis by auto
    next
      case nm: False
      with False gw have "ConfigBuilder cfg sys lg = (Inl TypeError, [])"
        by (simp add: ConfigBuilder_def Let_def)
      with False nm show ?thesis by auto
    qed
  qed
qed

theorem ConfigBuilder_rejects_invalid_input_witness:
  "\<not> truthy JUndefined
   \<and> ConfigBuilder cfg0 sys0 JUndefined = (Inl InvalidLogger, [])
   \<and> \<not> truthy JNull \<and> typeof JNull = ''object''
   \<and> ConfigBuilder cfg0 sys0 JNull = (Inl InvalidLogger, [])
   \<and> truthy (JStr ''console'') \<and> typeof (JStr ''console'') \<noteq> ''object''
   \<and> ConfigBuilder cfg0 sys0 (JStr ''console'') = (Inl InvalidLogger, [])
   \<and> truthy logger0 \<and> typeof logger0 = ''object'' \<and> has_method logger0 ''error''
   \<and> ConfigBuilder (cfg0\<lparr>cfg_local_network_gateway := JUndefined\<rparr>) sys0 logger0
       = (Inl (InvalidGatewayAddress JUndefined), [LogError (InvalidGatewayAddress JUndefined)])
   \<and> ConfigBuilder (cfg0\<lparr>cfg_local_network_gateway := JStr []\<rparr>) sys0 logger0
       = (Inl (InvalidGatewayAddress (JStr [])), [LogError (InvalidGatewayAddress (JStr []))])
   \<and> ConfigBuilder (cfg0\<lparr>cfg_local_network_gateway := JNum ''10''\<rparr>) sys0 logger0
       = (Inl (InvalidGatewayAddress (JNum ''10'')),
          [LogError (InvalidGatewayAddress (JNum ''10''))])
   \<and> truthy (JObj []) \<and> typeof (JObj []) = ''object'' \<and> \<not> has_method (JObj []) ''error''
   \<and> ConfigBuilder (cfg0\<lparr>cfg_local_network_gateway := JUndefined\<rparr>) sys0 (JObj [])
       = (Inl TypeError, [])"
proof -
  have l: "truthy logger0 \<and> typeof logger0 = ''object'' \<and> has_method logger0 ''error''"
    by (simp add: logger0_def)
  from ConfigBuilder_rejects_invalid_input [of JUndefined cfg0 sys0]
       ConfigBuilder_rejects_invalid_input [of JNull cfg0 sys0]
       ConfigBuilder_rejects_invalid_input [of "JStr ''console''" cfg0 sys0]
       ConfigBuilder_rejects_invalid_input
         [of logger0 "cfg0\<lparr>cfg_local_network_gateway := JUndefined\<rparr>" sys0]
       ConfigBuilder_rejects_invalid_input
         [of logger0 "cfg0\<lparr>cfg_local_network_gateway := JStr []\<rparr>" sys0]
       ConfigBuilder_rejects_invalid_input
         [of logger0 "cfg0\<lparr>cfg_local_network_gateway := JNum ''10''\<rparr>" sys0]
       ConfigBuilder_rejects_invalid_input
         [of "JObj []" "cfg0\<lparr>cfg_local_network_gateway := JUndefined\<rparr>" sys0]
       l
  show ?thesis by simp
qed

lemma ConfigBuilder_sample: "ConfigBuilder cfg0 sys0 logger0 = (Inr b0, [])"
  by (simp add: ConfigBuilder_def logger0_def cfg0_def sys0_def b0_def Let_def)

text \<open>Every other input is accepted: the guards are the only ways out.\<close>

lemma ConfigBuilder_accepts:
  assumes "truthy lg" and "typeof lg = ''object''"
      and "cfg_local_network_gateway cfg = JStr ip" and "ip \<noteq> []"
  shows "ConfigBuilder cfg sys lg =
           (Inr \<lparr>logger = lg, platform = os_platform sys, gatewayId = None,
                 localNetworkGatewayIP = JStr ip\<rparr>, [])"
  using assms by (simp add: ConfigBuilder_def Let_def)

text \<open>
  Claim C5. When the content read from the baseline configuration file is not valid JSON,
  \<open>generateGatewayAgentConfig\<close> is rejected, the error is not the error of a failed read,
  and no file is written. Once the identity stage has resolved, so that the baseline is read
  at all, the error is the exception of \<open>JSON.parse\<close>.
\<close>

theorem malformed_baseline_fails_without_write:
  assumes "fs_readFile sys (cfg_baseline_config_file cfg) = Inr data"
      and "JSON_parse sys data = Inl ex"
  shows "writes (snd (snd (generateGatewayAgentConfig cfg sys b))) = []
         \<and> (\<exists>e. fst (generateGatewayAgentConfig cfg sys b) = Rejected e
                \<and> (\<forall>r. e \<noteq> ReadError r)
                \<and> ((\<exists>gid. fst (getGatewayId cfg sys b) = Resolved gid) \<longrightarrow> e = SyntaxError ex))"
proof -
  obtain out b' t1 where g: "getGatewayId cfg sys b = (out, b', t1)"
    by (cases "getGatewayId cfg sys b") auto
  have w: "writes t1 = []" by (rule getGatewayId_writes [OF g])
  have r: "readExistingConfig sys (cfg_baseline_config_file cfg) True =
             (Rejected (SyntaxError ex),
              [Log LDebug ''Obtaining existing configuration from: [%s]'',
               ReadFile (cfg_baseline_config_file cfg),
               Log LError ''Error parsing existing configuration file: [%s]''])"
    using assms by (simp add: readExistingConfig_def)
  show ?thesis
  proof (cases out)
    case (Resolved gid)
    with g r w show ?thesis
      by (simp add: generateGatewayAgentConfig_def writes_append)
  next
    case (Rejected e)
    with g have "e = MacLookupFailed (cfg_outbound_network_interface cfg) \<or> e = TypeError"
      by (auto simp: getGatewayId_def Let_def split: option.splits sum.splits jsval.splits if_splits)
    with g Rejected w show ?thesis
      by (auto simp: generateGatewayAgentConfig_def writes_append)
  next
    case Pending
    with g getGatewayId_settles [of cfg sys b] show ?thesis by simp
  qed
qed

lemma sample_getGatewayId:
  "getGatewayId cfg0 sys0 b0 = (Resolved ''DEAD00112233'', b1, [HwLookup ''eth0''])"
  by (simp add: getGatewayId_def cached_def cfg0_def sys0_def b0_def b1_def
                toUpperCase_def removeColons_def upper_char_def
                  lower_letters_def upper_letters_def Let_def)

theorem malformed_baseline_fails_without_write_witness:
  "fs_readFile sys_badjson (cfg_baseline_config_file cfg0) = Inr ''{oops''
   \<and> JSON_parse sys_badjson ''{oops'' = Inl ''Unexpected token''
   \<and> fst (getGatewayId cfg0 sys_badjson b0) = Resolved ''DEAD00112233''
   \<and> fst (generateGatewayAgentConfig cfg0 sys_badjson b0) = Rejected (SyntaxError ''Unexpected token'')
   \<and> writes (snd (snd (generateGatewayAgentConfig cfg0 sys_badjson b0))) = []"
proof -
  have h1: "fs_readFile sys_badjson (cfg_baseline_config_file cfg0) = Inr ''{oops''"
    by (simp add: sys_badjson_def)
  have h2: "JSON_parse sys_badjson ''{oops'' = Inl ''Unexpected token''"
    by (simp add: sys_badjson_def sys0_def parse0_def baseline_text_def)
  have g: "fst (getGatewayId cfg0 sys_badjson b0) = Resolved ''DEAD00112233''"
    by (simp add: getGatewayId_def cached_def cfg0_def sys_badjson_def sys0_def b0_def
                  toUpperCase_def removeColons_def upper_char_def
                  lower_letters_def upper_letters_def Let_def)
  from malformed_baseline_fails_without_write [OF h1 h2, of b0] g h1 h2
  show ?thesis by auto
qed

subsection \<open>The gateway agent configuration\<close>

lemma generateGatewayAgentConfig_runs:
  assumes g: "getGatewayId cfg sys b = (Resolved gid, b', t1)"
      and r: "fs_readFile sys (cfg_baseline_config_file cfg) = Inr data"
      and p: "JSON_parse sys data = Inr config"
      and c: "get_prop config ''connectorTypes'' = Some ct"
      and s: "JSON_stringify (newConfig cfg b' gid ct) 4 = Some payload"
  shows "fst (generateGatewayAgentConfig cfg sys b) = Resolved ()
         \<and> writes (snd (snd (generateGatewayAgentConfig cfg sys b))) =
             (case fst (ensureConfig cfg sys b' ''gateway_agent_conf'') of
                Resolved path \<Rightarrow> [(path, payload)]
              | Rejected e \<Rightarrow> []
              | Pending \<Rightarrow> [])"
proof -
  obtain out now later
    where w: "writeConfig cfg sys b' ''gateway_agent_conf'' payload = (out, now, later)"
    by (cases "writeConfig cfg sys b' ''gateway_agent_conf'' payload") auto
  have rd: "readExistingConfig sys (cfg_baseline_config_file cfg) True =
              (Resolved config,
               [Log LDebug ''Obtaining existing configuration from: [%s]'',
                ReadFile (cfg_baseline_config_file cfg)])"
    using r p by (simp add: readExistingConfig_def)
  have pl: "payload_of (newConfig cfg b' gid ct) = payload"
    using s by (simp add: payload_of_def)
  have ws: "writes (now @ later) =
              (case fst (ensureConfig cfg sys b' ''gateway_agent_conf'') of
                 Resolved path \<Rightarrow> [(path, payload)]
               | Rejected e \<Rightarrow> []
               | Pending \<Rightarrow> [])"
    by (rule writeConfig_writes [OF w])
  have res: "generateGatewayAgentConfig cfg sys b =
          (Resolved (), b',
           [Log LDebug ''Generating gateway agent configuration. RequestId: [%s]'']
           @ t1
           @ [Log LDebug ''Obtaining existing configuration from: [%s]'',
              ReadFile (cfg_baseline_config_file cfg)]
           @ now
           @ [Log LInfo ''Gateway agent configuration updated successfully. RequestId: [%s]'']
           @ later)"
    using g rd c pl w by (simp add: generateGatewayAgentConfig_def)
  show ?thesis
    using ws getGatewayId_writes [OF g] by (simp add: res writes_append)
qed

text \<open>
  Claim C4. Let the instance come from the constructor (in any state of its identity
  cache), let the identity resolve to \<open>gid\<close>, and let the baseline parse to an object with a
  \<open>connectorTypes\<close> property \<open>ct\<close>. Then the generator serializes, with
  \<open>JSON.stringify(_, null, 4)\<close>, the object whose \<open>connectorTypes\<close> is \<open>ct\<close> itself, whose
  \<open>cloudConnectors\<close> has the single key \<open>gid-cnc-cloud\<close> with the host the constructor read
  from the settings, port 1883, protocol \<open>mqtt\<close>, account and gatewayname \<open>gid\<close>, the
  configured network interface and empty topics, and whose \<open>deviceConnectors\<close> has the single
  key \<open>gid-cnc-gateway\<close> with an empty \<open>config\<close>. This text is what \<open>fs.writeFile\<close> receives
  once the target path resolves and its directory exists, and nothing else is written.
\<close>

theorem generateGatewayAgentConfig_payload:
  assumes "fst (ConfigBuilder cfgc sysc lg) = Inr bc"
      and "b = bc\<lparr>gatewayId := cache\<rparr>"
      and "getGatewayId cfg sys b = (Resolved gid, b', t1)"
      and "fs_readFile sys (cfg_baseline_config_file cfg) = Inr data"
      and "JSON_parse sys data = Inr (JObj kvs)"
      and "map_of kvs ''connectorTypes'' = Some ct"
  shows "\<exists>payload.
           JSON_stringify
             (JObj [(''connectorTypes'', ct),
                    (''deviceConnectors'',
                       JObj [(gid @ ''-cnc-gateway'',
                              JObj [(''type'', JStr ''CncGateway''),
                                    (''config'', JObj [])])]),
                    (''cloudConnectors'',
                       JObj [(gid @ ''-cnc-cloud'',
                              JObj [(''type'', JStr ''CncCloud''),
                                    (''config'',
                                       JObj [(''host'', cfg_local_network_gateway cfgc),
                                             (''port'', JNum ''1883''),
                                             (''protocol'', JStr ''mqtt''),
                                             (''account'', JStr gid),
                                             (''networkInterface'',
                                                cfg_local_network_interface cfg),
                                             (''gatewayname'', JStr gid),
                                             (''topics'', JStr [])])])])]) 4
             = Some payload
           \<and> fst (generateGatewayAgentConfig cfg sys b) = Resolved ()
           \<and> writes (snd (snd (generateGatewayAgentConfig cfg sys b))) =
               (case fst (ensureConfig cfg sys b' ''gateway_agent_conf'') of
                  Resolved path \<Rightarrow> [(path, payload)]
                | Rejected e \<Rightarrow> []
                | Pending \<Rightarrow> [])"
proof -
  have ip: "localNetworkGatewayIP bc = cfg_local_network_gateway cfgc"
    using assms(1) by (auto simp: ConfigBuilder_def Let_def split: if_splits)
  have ip': "localNetworkGatewayIP b' = cfg_local_network_gateway cfgc"
    using getGatewayId_keeps_fields [OF assms(3)] assms(2) ip by simp
  obtain payload where s: "JSON_stringify (newConfig cfg b' gid ct) 4 = Some payload"
    unfolding newConfig_def using stringify_object by blast
  have c: "get_prop (JObj kvs) ''connectorTypes'' = Some ct"
    using assms(6) by simp
  note run = generateGatewayAgentConfig_runs [OF assms(3) assms(4) assms(5) c s]
  from s have "JSON_stringify
             (JObj [(''connectorTypes'', ct),
                    (''deviceConnectors'',
                       JObj [(gid @ ''-cnc-gateway'',
                              JObj [(''type'', JStr ''CncGateway''),
                                    (''config'', JObj [])])]),
                    (''cloudConnectors'',
                       JObj [(gid @ ''-cnc-cloud'',
                              JObj [(''type'', JStr ''CncCloud''),
                                    (''config'',
                                       JObj [(''host'', cfg_local_network_gateway cfgc),
                                             (''port'', JNum ''1883''),
                                             (''protocol'', JStr ''mqtt''),
                                             (''account'', JStr gid),
                                             (''networkInterface'',
                                                cfg_local_network_interface cfg),
                                             (''gatewayname'', JStr gid),
                                             (''topics'', JStr [])])])])]) 4
             = Some payload"
    by (simp add: newConfig_def connectors_def ip')
  with run show ?thesis by blast
qed

text \<open>
  Claim C10. A baseline that parses to an object without \<open>connectorTypes\<close> is not
  rejected: the generator resolves, and the text handed to the write is the serialization
  of the object with the two properties \<open>deviceConnectors\<close> and \<open>cloudConnectors\<close> only, since
  \<open>JSON.stringify\<close> leaves out a property whose value is \<open>undefined\<close>.
\<close>

theorem generateGatewayAgentConfig_without_connectorTypes:
  assumes "getGatewayId cfg sys b = (Resolved gid, b', t1)"
      and "fs_readFile sys (cfg_baseline_config_file cfg) = Inr data"
      and "JSON_parse sys data = Inr (JObj kvs)"
      and "map_of kvs ''connectorTypes'' = None"
  shows "fst (generateGatewayAgentConfig cfg sys b) = Resolved ()
         \<and> map fst (connectors cfg b' gid) = [''deviceConnectors'', ''cloudConnectors'']
         \<and> (\<exists>payload.
               JSON_stringify (JObj (connectors cfg b' gid)) 4 = Some payload
               \<and> writes (snd (snd (generateGatewayAgentConfig cfg sys b))) =
                   (case fst (ensureConfig cfg sys b' ''gateway_agent_conf'') of
                      Resolved path \<Rightarrow> [(path, payload)]
                    | Rejected e \<Rightarrow> []
                    | Pending \<Rightarrow> []))"
proof -
  obtain payload where s: "JSON_stringify (JObj (connectors cfg b' gid)) 4 = Some payload"
    using stringify_object by blast
  then have s': "JSON_stringify (newConfig cfg b' gid JUndefined) 4 = Some payload"
    by (simp add: newConfig_def stringify_skips_undefined)
  have c: "get_prop (JObj kvs) ''connectorTypes'' = Some JUndefined"
    using assms(4) by simp
  note run = generateGatewayAgentConfig_runs [OF assms(1) assms(2) assms(3) c s']
  have "map fst (connectors cfg b' gid) = [''deviceConnectors'', ''cloudConnectors'']"
    by (simp add: connectors_def)
  with run s show ?thesis by blast
qed

lemma sample_stringify:
  "JSON_stringify
     (JObj [(''connectorTypes'', JArr [JStr ''X'']),
            (''deviceConnectors'',
               JObj [(''DEAD00112233-cnc-gateway'',
                      JObj [(''type'', JStr ''CncGateway''),
                            (''config'', JObj [])])]),
            (''cloudConnectors'',
               JObj [(''DEAD00112233-cnc-cloud'',
                      JObj [(''type'', JStr ''CncCloud''),
                            (''config'',
                               JObj [(''host'', cfg_local_network_gateway cfg0),
                                     (''port'', JNum ''1883''),
                                     (''protocol'', JStr ''mqtt''),
                                     (''account'', JStr ''DEAD00112233''),
                                     (''networkInterface'',
                                        cfg_local_network_interface cfg0),
                                     (''gatewayname'', JStr ''DEAD00112233''),
                                     (''topics'', JStr [])])])])]) 4
   = Some agent_text0"
  by code_simp

lemma sample_stringify_nokey:
  "JSON_stringify (JObj (connectors cfg0 b1 ''DEAD00112233'')) 4 = Some agent_text_nokey"
  by code_simp

lemma sample_ensure_agent:
  "fst (ensureConfig cfg0 sys0 b1 ''gateway_agent_conf'') = Resolved ''/etc/iot/agent.json''"
  by code_simp

theorem generateGatewayAgentConfig_payload_witness:
  "fst (ConfigBuilder cfg0 sys0 logger0) = Inr b0
   \<and> getGatewayId cfg0 sys0 b0 = (Resolved ''DEAD00112233'', b1, [HwLookup ''eth0''])
   \<and> fs_readFile sys0 (cfg_baseline_config_file cfg0) = Inr baseline_text
   \<and> JSON_parse sys0 baseline_text = Inr (JObj [(''connectorTypes'', JArr [JStr ''X''])])
   \<and> fst (generateGatewayAgentConfig cfg0 sys0 b0) = Resolved ()
   \<and> writes (snd (snd (generateGatewayAgentConfig cfg0 sys0 b0)))
       = [(''/etc/iot/agent.json'', agent_text0)]"
proof -
  have h1: "fst (ConfigBuilder cfg0 sys0 logger0) = Inr b0"
    by (simp add: ConfigBuilder_sample)
  have h2: "b0 = b0\<lparr>gatewayId := None\<rparr>"
    by (simp add: b0_def)
  have h4: "fs_readFile sys0 (cfg_baseline_config_file cfg0) = Inr baseline_text"
    by (simp add: sys0_def cfg0_def)
  have h5: "JSON_parse sys0 baseline_text = Inr (JObj [(''connectorTypes'', JArr [JStr ''X''])])"
    by (simp add: sys0_def parse0_def)
  have h6: "map_of [(''connectorTypes'', JArr [JStr ''X''])] ''connectorTypes''
              = Some (JArr [JStr ''X''])"
    by simp
  from generateGatewayAgentConfig_payload [OF h1 h2 sample_getGatewayId h4 h5 h6]
  have "fst (generateGatewayAgentConfig cfg0 sys0 b0) = Resolved ()
        \<and> writes (snd (snd (generateGatewayAgentConfig cfg0 sys0 b0)))
            = [(''/etc/iot/agent.json'', agent_text0)]"
    by (auto simp: sample_stringify sample_ensure_agent)
  with h1 h4 h5 sample_getGatewayId show ?thesis by blast
qed

theorem generateGatewayAgentConfig_without_connectorTypes_witness:
  "getGatewayId cfg0 sys_nokey b1 = (Resolved ''DEAD00112233'', b1, [])
   \<and> fs_readFile sys_nokey (cfg_baseline_config_file cfg0) = Inr ''{}''
   \<and> JSON_parse sys_nokey ''{}'' = Inr (JObj [])
   \<and> map_of ([] :: (string \<times> jsval) list) ''connectorTypes'' = None
   \<and> fst (generateGatewayAgentConfig cfg0 sys_nokey b1) = Resolved ()
   \<and> writes (snd (snd (generateGatewayAgentConfig cfg0 sys_nokey b1)))
       = [(''/etc/iot/agent.json'', agent_text_nokey)]"
proof -
  have h1: "getGatewayId cfg0 sys_nokey b1 = (Resolved ''DEAD00112233'', b1, [])"
    by (simp add: getGatewayId_def cached_def b1_def)
  have h2: "fs_readFile sys_nokey (cfg_baseline_config_file cfg0) = Inr ''{}''"
    by (simp add: sys_nokey_def)
  have h3: "JSON_parse sys_nokey ''{}'' = Inr (JObj [])"
    by (simp add: sys_nokey_def sys0_def parse0_def baseline_text_def)
  have h4: "map_of ([] :: (string \<times> jsval) list) ''connectorTypes'' = None"
    by simp
  have e: "fst (ensureConfig cfg0 sys_nokey b1 ''gateway_agent_conf'') = Resolved ''/etc/iot/agent.json''"
    by code_simp
  from generateGatewayAgentConfig_without_connectorTypes [OF h1 h2 h3 h4]
  have "fst (generateGatewayAgentConfig cfg0 sys_nokey b1) = Resolved ()
        \<and> writes (snd (snd (generateGatewayAgentConfig cfg0 sys_nokey b1)))
            = [(''/etc/iot/agent.json'', agent_text_nokey)]"
    by (auto simp: sample_stringify_nokey e)
  with h1 h2 h3 h4 show ?thesis by blast
qed

subsection \<open>The gateway identity\<close>

lemma concat_split_on: "concat (split_on sep s) = filter (\<lambda>c. c \<noteq> sep) s"
  by (induction s) (auto split: list.splits)

lemma length_concat_octets:
  "list_all (\<lambda>w. length w = 2 \<and> list_all P w) ws \<Longrightarrow>
   length (concat ws) = 2 * length ws \<and> list_all P (concat ws)"
  by (induction ws) auto

lemma upper_char_simps:
  "upper_char CHR ''a'' = CHR ''A''" "upper_char CHR ''b'' = CHR ''B''"
  "upper_char CHR ''c'' = CHR ''C''" "upper_char CHR ''d'' = CHR ''D''"
  "upper_char CHR ''e'' = CHR ''E''" "upper_char CHR ''f'' = CHR ''F''"
  "upper_char CHR ''A'' = CHR ''A''" "upper_char CHR ''B'' = CHR ''B''"
  "upper_char CHR ''C'' = CHR ''C''" "upper_char CHR ''D'' = CHR ''D''"
  "upper_char CHR ''E'' = CHR ''E''" "upper_char CHR ''F'' = CHR ''F''"
  "upper_char CHR ''0'' = CHR ''0''" "upper_char CHR ''1'' = CHR ''1''"
  "upper_char CHR ''2'' = CHR ''2''" "upper_char CHR ''3'' = CHR ''3''"
  "upper_char CHR ''4'' = CHR ''4''" "upper_char CHR ''5'' = CHR ''5''"
  "upper_char CHR ''6'' = CHR ''6''" "upper_char CHR ''7'' = CHR ''7''"
  "upper_char CHR ''8'' = CHR ''8''" "upper_char CHR ''9'' = CHR ''9''"
  by (simp_all add: upper_char_def lower_letters_def upper_letters_def)

lemma upper_char_hex: "is_hex c \<Longrightarrow> is_upper_hex (upper_char c)"
  unfolding is_hex_def is_upper_hex_def
  by (elim disjE | simp add: upper_char_simps)+

lemma valid_mac_identity:
  assumes "valid_mac m"
  shows "length (toUpperCase (removeColons m)) = 12
         \<and> list_all is_upper_hex (toUpperCase (removeColons m))"
proof -
  let ?ws = "split_on CHR '':'' m"
  from assms have l: "length ?ws = 6"
    and a: "list_all (\<lambda>w. length w = 2 \<and> list_all is_hex w) ?ws"
    by (simp_all add: valid_mac_def Let_def)
  have r: "removeColons m = concat ?ws"
    by (simp add: removeColons_def concat_split_on)
  from length_concat_octets [OF a] l r
  have n: "length (removeColons m) = 12" and h: "list_all is_hex (removeColons m)"
    by simp_all
  from h have "list_all is_upper_hex (map upper_char (removeColons m))"
    by (simp add: list_all_iff upper_char_hex)
  with n show ?thesis by (simp add: toUpperCase_def)
qed

text \<open>
  Claim C3. Whenever \<open>_getGatewayId\<close> performs the hardware lookup and the lookup returns
  the string \<open>m\<close>, the promise resolves to \<open>m\<close> with every colon removed and upper-cased, and
  this value is cached. The identity is a function of \<open>m\<close> alone, and for six colon-separated
  octets of two hexadecimal digits it has twelve characters, all of them digits or
  \<open>A\<close> to \<open>F\<close>.
\<close>

theorem getGatewayId_normalizes_mac:
  assumes "macaddress_one sys (cfg_outbound_network_interface cfg) = Inr (JStr m)"
      and "lookups (snd (snd (getGatewayId cfg sys b))) \<noteq> []"
  shows "fst (getGatewayId cfg sys b) = Resolved (toUpperCase (removeColons m))
         \<and> gatewayId (fst (snd (getGatewayId cfg sys b))) = Some (toUpperCase (removeColons m))
         \<and> (valid_mac m \<longrightarrow>
              length (toUpperCase (removeColons m)) = 12
              \<and> list_all is_upper_hex (toUpperCase (removeColons m)))"
proof -
  from assms(2) have "\<not> cached (gatewayId b)"
    by (auto simp: getGatewayId_def cached_def split: if_splits option.splits)
  with assms(1) have "getGatewayId cfg sys b =
      (Resolved (toUpperCase (removeColons m)),
       b\<lparr>gatewayId := Some (toUpperCase (removeColons m))\<rparr>,
       [HwLookup (cfg_outbound_network_interface cfg)])"
    by (simp add: getGatewayId_def Let_def)
  then show ?thesis using valid_mac_identity [of m] by simp
qed

theorem getGatewayId_normalizes_mac_witness:
  "macaddress_one sys0 (cfg_outbound_network_interface cfg0) = Inr (JStr ''de:ad:00:11:22:33'')
   \<and> lookups (snd (snd (getGatewayId cfg0 sys0 b0))) = [''eth0'']
   \<and> valid_mac ''de:ad:00:11:22:33''
   \<and> toUpperCase (removeColons ''de:ad:00:11:22:33'') = ''DEAD00112233''
   \<and> fst (getGatewayId cfg0 sys0 b0) = Resolved ''DEAD00112233''
   \<and> gatewayId (fst (snd (getGatewayId cfg0 sys0 b0))) = Some ''DEAD00112233''
   \<and> length ''DEAD00112233'' = 12
   \<and> list_all is_upper_hex ''DEAD00112233''"
proof -
  have h1: "macaddress_one sys0 (cfg_outbound_network_interface cfg0)
              = Inr (JStr ''de:ad:00:11:22:33'')"
    by (simp add: sys0_def cfg0_def)
  have h2: "lookups (snd (snd (getGatewayId cfg0 sys0 b0))) = [''eth0'']"
    by (simp add: sample_getGatewayId)
  then have h2': "lookups (snd (snd (getGatewayId cfg0 sys0 b0))) \<noteq> []"
    by simp
  have v: "valid_mac ''de:ad:00:11:22:33''"
    by (simp add: valid_mac_def is_hex_def)
  have n: "toUpperCase (removeColons ''de:ad:00:11:22:33'') = ''DEAD00112233''"
    by (simp add: toUpperCase_def removeColons_def upper_char_def lower_letters_def
                  upper_letters_def)
  from getGatewayId_normalizes_mac [OF h1 h2'] v n h1 h2
  show ?thesis by simp
qed

lemma getGatewayId_hit:
  "gatewayId b = Some g \<Longrightarrow> g \<noteq> [] \<Longrightarrow> getGatewayId cfg sys b = (Resolved g, b, [])"
  by (simp add: getGatewayId_def cached_def)

lemma getGatewayId_uncached:
  "\<not> cached (gatewayId b) \<Longrightarrow>
   lookups (snd (snd (getGatewayId cfg sys b))) = [cfg_outbound_network_interface cfg]"
  by (auto simp: getGatewayId_def Let_def split: sum.splits jsval.splits)

lemma getGatewayId_calls_cached:
  "gatewayId b = Some g \<Longrightarrow> g \<noteq> [] \<Longrightarrow>
   getGatewayId_calls envs b = map (\<lambda>env. (Resolved g, [])) envs"
  by (induction envs) (simp_all add: getGatewayId_hit)

lemma getGatewayId_resolved_cache:
  "getGatewayId cfg sys b = (Resolved g, b', t) \<Longrightarrow> gatewayId b' = Some g"
  by (auto simp: getGatewayId_def Let_def cached_def
           split: option.splits sum.splits jsval.splits if_splits)

lemma getGatewayId_rejected_cache:
  "getGatewayId cfg sys b = (Rejected e, b', t) \<Longrightarrow> b' = b \<and> \<not> cached (gatewayId b)"
  by (auto simp: getGatewayId_def Let_def cached_def
           split: option.splits sum.splits jsval.splits if_splits)

text \<open>
  Claim C7, amended. If a call of \<open>_getGatewayId\<close> resolved with a non-empty identity, every
  later call, whatever the settings and the hardware then are, resolves to that identity
  with an empty trace, so without a hardware lookup. If a call is rejected, the instance is
  as it was, nothing is cached, and the next call performs the hardware lookup.
\<close>

theorem getGatewayId_cache:
  assumes "getGatewayId cfg sys b = (out, b', t)"
  shows "(\<forall>g. out = Resolved g \<and> g \<noteq> [] \<longrightarrow>
            getGatewayId_calls envs b' = map (\<lambda>env. (Resolved g, [])) envs)
         \<and> (\<forall>e. out = Rejected e \<longrightarrow>
              b' = b \<and> \<not> cached (gatewayId b')
              \<and> (\<forall>cfg' sys'. lookups (snd (snd (getGatewayId cfg' sys' b')))
                                 = [cfg_outbound_network_interface cfg']))"
  using assms
  by (auto dest: getGatewayId_resolved_cache getGatewayId_rejected_cache
           simp: getGatewayId_calls_cached getGatewayId_uncached)

theorem getGatewayId_cache_witness:
  "getGatewayId cfg0 sys0 b0 = (Resolved ''DEAD00112233'', b1, [HwLookup ''eth0''])
   \<and> getGatewayId_calls [(cfg0, sys_nomac), (cfg0, sys0)] b1
       = [(Resolved ''DEAD00112233'', []), (Resolved ''DEAD00112233'', [])]
   \<and> getGatewayId cfg0 sys_nomac b0
       = (Rejected (MacLookupFailed ''eth0''), b0,
          [HwLookup ''eth0'', LogError (MacLookupFailed ''eth0'')])
   \<and> gatewayId b0 = None
   \<and> lookups (snd (snd (getGatewayId cfg0 sys0 b0))) = [''eth0'']"
proof -
  have f: "getGatewayId cfg0 sys_nomac b0
             = (Rejected (MacLookupFailed ''eth0''), b0,
                [HwLookup ''eth0'', LogError (MacLookupFailed ''eth0'')])"
    by (simp add: getGatewayId_def cached_def sys_nomac_def cfg0_def b0_def Let_def)
  from getGatewayId_cache [OF sample_getGatewayId, of "[(cfg0, sys_nomac), (cfg0, sys0)]"]
       getGatewayId_cache [OF f, of "[]"] f sample_getGatewayId
  show ?thesis by (simp add: cfg0_def b0_def)
qed

text \<open>
  The claim as first stated, for every successful resolution, fails when the hardware
  lookup returns the empty string: the call resolves to the empty identity and stores it,
  the cache test \<open>if(this._gatewayId)\<close> is false for it, and the next call looks the
  hardware address up again.
\<close>

theorem getGatewayId_empty_identity_counterexample:
  "getGatewayId cfg0 sys_emptymac b0
     = (Resolved [], b0\<lparr>gatewayId := Some []\<rparr>, [HwLookup ''eth0''])
   \<and> getGatewayId cfg0 sys_emptymac (b0\<lparr>gatewayId := Some []\<rparr>)
       = (Resolved [], b0\<lparr>gatewayId := Some []\<rparr>, [HwLookup ''eth0''])
   \<and> lookups (snd (snd (getGatewayId cfg0 sys_emptymac
                               (fst (snd (getGatewayId cfg0 sys_emptymac b0))))))
       = [''eth0'']"
  by (simp add: getGatewayId_def cached_def sys_emptymac_def cfg0_def b0_def
                toUpperCase_def removeColons_def Let_def)

subsection \<open>Path resolution\<close>

text \<open>
  Claim C8, amended. \<open>_getConfigPath\<close> returns \<open>null\<close> when the target is not one of the two
  known names, when the platform is neither \<open>linux\<close> nor \<open>darwin\<close>, and also when the path
  configured for the target on the platform is the empty string; otherwise it returns
  exactly the path of the table, for instance \<open>/etc/hostapd/hostapd.conf\<close> for
  \<open>hostapd_conf\<close> on \<open>linux\<close>. The function takes and returns no instance state, and its only
  effects are logger calls: it never touches the file system.
\<close>

theorem getConfigPath_resolution:
  "(target \<noteq> ''hostapd_conf'' \<and> target \<noteq> ''gateway_agent_conf''
      \<longrightarrow> fst (getConfigPath cfg sys b target) = None)
   \<and> (platform b \<noteq> ''linux'' \<and> platform b \<noteq> ''darwin''
      \<longrightarrow> fst (getConfigPath cfg sys b target) = None)
   \<and> (configured_path cfg sys target (platform b) = None
      \<longrightarrow> fst (getConfigPath cfg sys b target) = None)
   \<and> (configured_path cfg sys target (platform b) = Some []
      \<longrightarrow> fst (getConfigPath cfg sys b target) = None)
   \<and> (\<forall>p. configured_path cfg sys target (platform b) = Some p \<and> p \<noteq> []
      \<longrightarrow> fst (getConfigPath cfg sys b target) = Some p)
   \<and> configured_path cfg sys ''hostapd_conf'' ''linux'' = Some ''/etc/hostapd/hostapd.conf''
   \<and> configured_path cfg sys ''hostapd_conf'' ''darwin''
       = Some (path_resolve sys ''./.tmp/hostapd.conf'')
   \<and> configured_path cfg sys ''gateway_agent_conf'' ''linux'' = Some (cfg_config_file cfg)
   \<and> configured_path cfg sys ''gateway_agent_conf'' ''darwin'' = Some (cfg_config_file cfg)
   \<and> list_all is_log (snd (getConfigPath cfg sys b target))"
proof -
  have a: "target \<noteq> ''hostapd_conf'' \<and> target \<noteq> ''gateway_agent_conf''
           \<longrightarrow> fst (getConfigPath cfg sys b target) = None"
    by (simp add: getConfigPath_def CONFIG_PATHS_def)
  have b: "platform b \<noteq> ''linux'' \<and> platform b \<noteq> ''darwin''
           \<longrightarrow> fst (getConfigPath cfg sys b target) = None"
    by (simp add: getConfigPath_def CONFIG_PATHS_def)
  have c: "configured_path cfg sys target (platform b) = None
           \<longrightarrow> fst (getConfigPath cfg sys b target) = None"
    by (simp add: getConfigPath_def configured_path_def split: option.splits)
  have d: "configured_path cfg sys target (platform b) = Some []
           \<longrightarrow> fst (getConfigPath cfg sys b target) = None"
    by (simp add: getConfigPath_def configured_path_def split: option.splits)
  have e: "\<forall>p. configured_path cfg sys target (platform b) = Some p \<and> p \<noteq> []
           \<longrightarrow> fst (getConfigPath cfg sys b target) = Some p"
    by (simp add: getConfigPath_def configured_path_def split: option.splits)
  have f: "configured_path cfg sys ''hostapd_conf'' ''linux'' = Some ''/etc/hostapd/hostapd.conf''"
    "configured_path cfg sys ''hostapd_conf'' ''darwin''
       = Some (path_resolve sys ''./.tmp/hostapd.conf'')"
    "configured_path cfg sys ''gateway_agent_conf'' ''linux'' = Some (cfg_config_file cfg)"
    "configured_path cfg sys ''gateway_agent_conf'' ''darwin'' = Some (cfg_config_file cfg)"
    by (simp_all add: configured_path_def CONFIG_PATHS_def)
  from a b c d e f getConfigPath_logs_only [of cfg sys b target] show ?thesis
    by blast
qed

theorem getConfigPath_resolution_witness:
  "''wifi_conf'' \<noteq> ''hostapd_conf'' \<and> ''wifi_conf'' \<noteq> ''gateway_agent_conf''
   \<and> getConfigPath cfg0 sys0 b0 ''wifi_conf''
       = (None, [Log LError ''Unable to determine config file path for target: [%s]''])
   \<and> platform (b0\<lparr>platform := ''win32''\<rparr>) \<noteq> ''linux''
   \<and> platform (b0\<lparr>platform := ''win32''\<rparr>) \<noteq> ''darwin''
   \<and> getConfigPath cfg0 sys0 (b0\<lparr>platform := ''win32''\<rparr>) ''hostapd_conf''
       = (None, [Log LError ''Config target [%s] not defined for current platform: [%s]''])
   \<and> configured_path cfg0 sys0 ''hostapd_conf'' (platform b0) = Some ''/etc/hostapd/hostapd.conf''
   \<and> getConfigPath cfg0 sys0 b0 ''hostapd_conf'' = (Some ''/etc/hostapd/hostapd.conf'', [])
   \<and> configured_path cfg0 sys0 ''gateway_agent_conf'' (platform (b0\<lparr>platform := ''darwin''\<rparr>))
       = Some ''/etc/iot/agent.json''
   \<and> getConfigPath cfg0 sys0 (b0\<lparr>platform := ''darwin''\<rparr>) ''gateway_agent_conf''
       = (Some ''/etc/iot/agent.json'', [])
   \<and> getConfigPath cfg0 sys0 (b0\<lparr>platform := ''darwin''\<rparr>) ''hostapd_conf''
       = (Some ''/opt/iot-client/.tmp/hostapd.conf'', [])"
  using getConfigPath_resolution
          [where target = "''wifi_conf''" and cfg = cfg0 and sys = sys0 and b = b0]
        getConfigPath_resolution
          [where target = "''hostapd_conf''" and cfg = cfg0 and sys = sys0
             and b = "b0\<lparr>platform := ''win32''\<rparr>"]
        getConfigPath_resolution
          [where target = "''hostapd_conf''" and cfg = cfg0 and sys = sys0 and b = b0]
        getConfigPath_resolution
          [where target = "''gateway_agent_conf''" and cfg = cfg0 and sys = sys0
             and b = "b0\<lparr>platform := ''darwin''\<rparr>"]
  by (simp add: getConfigPath_def CONFIG_PATHS_def configured_path_def b0_def cfg0_def sys0_def)

text \<open>
  The claim as first stated fails for a known target on a mapped platform whose configured
  path is the empty string (\<open>cfg_config_file\<close> left empty): the table has the entry, and the
  test \<open>if(!configInfo)\<close> turns it into \<open>null\<close> instead of returning it.
\<close>

theorem getConfigPath_empty_path_counterexample:
  "configured_path cfg_nofile sys0 ''gateway_agent_conf'' (platform b0) = Some []
   \<and> getConfigPath cfg_nofile sys0 b0 ''gateway_agent_conf''
       = (None, [Log LError ''Config target [%s] not defined for current platform: [%s]''])"
  by (simp add: getConfigPath_def CONFIG_PATHS_def configured_path_def b0_def cfg_nofile_def)

subsection \<open>The access point configuration\<close>

lemma lower_char_LF: "(lower_char c = LF) = (c = LF)"
  by (simp add: lower_char_def upper_letters_def lower_letters_def)

lemma toLowerCase_LF: "LF \<notin> set gid \<Longrightarrow> LF \<notin> set (toLowerCase gid)"
proof (induction gid)
  case Nil
  show ?case by (simp add: toLowerCase_def)
next
  case (Cons c cs)
  from Cons.prems have "c \<noteq> LF" and "LF \<notin> set cs"
    by auto
  with Cons.IH lower_char_LF [of c] have "lower_char c \<noteq> LF" and "LF \<notin> set (toLowerCase cs)"
    by blast+
  then show ?case unfolding toLowerCase_def by auto
qed

lemma split_on_no_sep: "sep \<notin> set l \<Longrightarrow> split_on sep l = [l]"
  by (induction l) auto

lemma split_on_line: "sep \<notin> set l \<Longrightarrow> split_on sep (l @ sep # rest) = l # split_on sep rest"
  by (induction l) auto

lemma split_on_join:
  "ls \<noteq> [] \<Longrightarrow> \<forall>l \<in> set ls. sep \<notin> set l \<Longrightarrow> split_on sep (join [sep] ls) = ls"
proof (induction ls)
  case Nil
  then show ?case by simp
next
  case (Cons x xs)
  show ?case
  proof (cases xs)
    case Nil
    with Cons.prems show ?thesis by (simp add: split_on_no_sep)
  next
    case c: (Cons y ys)
    with Cons.prems have "split_on sep (join [sep] xs) = xs"
      by (intro Cons.IH) simp_all
    with c Cons.prems show ?thesis by (simp add: split_on_line)
  qed
qed

lemma generateHostApConfig_writes:
  assumes g: "getGatewayId cfg sys b = (Resolved gid, b', t1)"
  shows "writes (snd (snd (generateHostApConfig cfg sys b))) =
           (case fst (ensureConfig cfg sys b' ''hostapd_conf'') of
              Resolved path \<Rightarrow> [(path, join [LF] (hostApConfig gid))]
            | Rejected e \<Rightarrow> []
            | Pending \<Rightarrow> [])"
proof -
  obtain out now later
    where w: "writeConfig cfg sys b' ''hostapd_conf'' (join [LF] (hostApConfig gid))
                = (out, now, later)"
    by (cases "writeConfig cfg sys b' ''hostapd_conf'' (join [LF] (hostApConfig gid))") auto
  have "writes (snd (snd (generateHostApConfig cfg sys b))) = writes (now @ later)"
    using g w getGatewayId_writes [OF g]
    by (cases out) (simp_all add: generateHostApConfig_def writes_append)
  with writeConfig_writes [OF w] show ?thesis by simp
qed

text \<open>
  Claim C2, amended. For every resolved identity \<open>gid\<close>, the text that
  \<open>generateHostApConfig\<close> hands to the file write is the newline-join of exactly these 13
  entries in this order, with \<open>ssid=gid\<close>, \<open>wpa_passphrase=\<close> the lower-cased \<open>gid\<close> and the
  fixed constants; exactly two of the entries are blank separators. It is written to the
  resolved path when the parent directory exists, and nothing else is written. When \<open>gid\<close>
  has no line feed, the lines of the text are these 13 entries.
\<close>

theorem generateHostApConfig_text:
  assumes "getGatewayId cfg sys b = (Resolved gid, b', t1)"
  shows "\<exists>ls. ls = [''interface=wlan0'',
                    [],
                    ''ssid='' @ gid,
                    ''wpa_passphrase='' @ toLowerCase gid,
                    ''channel=6'',
                    [],
                    ''wmm_enabled=1'',
                    ''wpa=1'',
                    ''wpa_key_mgmt=WPA-PSK'',
                    ''wpa_pairwise=TKIP'',
                    ''rsn_pairwise=CCMP'',
                    ''macaddr_acl=0'',
                    ''auth_algs=1'']
              \<and> length ls = 13
              \<and> blank_lines ls = 2
              \<and> writes (snd (snd (generateHostApConfig cfg sys b))) =
                  (case fst (ensureConfig cfg sys b' ''hostapd_conf'') of
                     Resolved path \<Rightarrow> [(path, join [LF] ls)]
                   | Rejected e \<Rightarrow> []
                   | Pending \<Rightarrow> [])
              \<and> (LF \<notin> set gid \<longrightarrow> lines_of (join [LF] ls) = ls)"
proof -
  have l: "length (hostApConfig gid) = 13"
    by (simp add: hostApConfig_def)
  have bl: "blank_lines (hostApConfig gid) = 2"
    by (simp add: hostApConfig_def blank_lines_def)
  have sp: "LF \<notin> set gid \<longrightarrow> lines_of (join [LF] (hostApConfig gid)) = hostApConfig gid"
  proof
    assume n: "LF \<notin> set gid"
    have "\<forall>l \<in> set (hostApConfig gid). LF \<notin> set l"
      using n toLowerCase_LF [OF n] by (auto simp: hostApConfig_def)
    moreover have "hostApConfig gid \<noteq> []"
      by (simp add: hostApConfig_def)
    ultimately show "lines_of (join [LF] (hostApConfig gid)) = hostApConfig gid"
      unfolding lines_of_def by (rule split_on_join [rotated])
  qed
  from l bl sp generateHostApConfig_writes [OF assms] show ?thesis
    unfolding hostApConfig_def by blast
qed

lemma sample_cached_identity: "getGatewayId cfg0 sys0 b2 = (Resolved ''AABBCCDDEEFF'', b2, [])"
  by (simp add: getGatewayId_def cached_def b2_def)

lemma sample_ensure_hostapd:
  "fst (ensureConfig cfg0 sys0 b2 ''hostapd_conf'') = Resolved ''/etc/hostapd/hostapd.conf''"
  by code_simp

theorem generateHostApConfig_text_witness:
  "getGatewayId cfg0 sys0 b2 = (Resolved ''AABBCCDDEEFF'', b2, [])
   \<and> LF \<notin> set ''AABBCCDDEEFF''
   \<and> writes (snd (snd (generateHostApConfig cfg0 sys0 b2)))
       = [(''/etc/hostapd/hostapd.conf'',
           join [LF]
             [''interface=wlan0'', [], ''ssid=AABBCCDDEEFF'', ''wpa_passphrase=aabbccddeeff'',
              ''channel=6'', [], ''wmm_enabled=1'', ''wpa=1'', ''wpa_key_mgmt=WPA-PSK'',
              ''wpa_pairwise=TKIP'', ''rsn_pairwise=CCMP'', ''macaddr_acl=0'',
              ''auth_algs=1''])]
   \<and> lines_of
         (join [LF]
            [''interface=wlan0'', [], ''ssid=AABBCCDDEEFF'', ''wpa_passphrase=aabbccddeeff'',
             ''channel=6'', [], ''wmm_enabled=1'', ''wpa=1'', ''wpa_key_mgmt=WPA-PSK'',
             ''wpa_pairwise=TKIP'', ''rsn_pairwise=CCMP'', ''macaddr_acl=0'',
             ''auth_algs=1''])
       = [''interface=wlan0'', [], ''ssid=AABBCCDDEEFF'', ''wpa_passphrase=aabbccddeeff'',
          ''channel=6'', [], ''wmm_enabled=1'', ''wpa=1'', ''wpa_key_mgmt=WPA-PSK'',
          ''wpa_pairwise=TKIP'', ''rsn_pairwise=CCMP'', ''macaddr_acl=0'',
          ''auth_algs=1'']"
proof -
  have n: "LF \<notin> set ''AABBCCDDEEFF''"
    by simp
  have lc: "toLowerCase ''AABBCCDDEEFF'' = ''aabbccddeeff''"
    by (simp add: toLowerCase_def lower_char_def upper_letters_def lower_letters_def)
  from generateHostApConfig_text [OF sample_cached_identity] n sample_cached_identity
  show ?thesis
    by (simp add: sample_ensure_hostapd lc)
qed

text \<open>
  The claim as first stated, with exactly one blank line, fails already for the identity
  \<open>AABBCCDDEEFF\<close>: the text written has 13 lines, two of which are blank (the second and
  the sixth entry of the array in the source).
\<close>

theorem generateHostApConfig_blank_lines_counterexample:
  "getGatewayId cfg0 sys0 b2 = (Resolved ''AABBCCDDEEFF'', b2, [])
   \<and> writes (snd (snd (generateHostApConfig cfg0 sys0 b2)))
       = [(''/etc/hostapd/hostapd.conf'', hostapd_text0)]
   \<and> length (lines_of hostapd_text0) = 13
   \<and> blank_lines (lines_of hostapd_text0) = 2"
  by code_simp

subsection \<open>Propagation of failures\<close>

text \<open>
  Claim C1 does not hold of the code. When \<open>fs.writeFile\<close> fails, \<open>_writeConfig\<close> rejects, but
  \<open>generateGatewayAgentConfig\<close> has dropped that promise and resolves. When the parent
  directory is missing or the target has no path, \<open>_ensureConfig\<close> rejects and the promise of
  \<open>_writeConfig\<close> is never settled, so \<open>generateHostApConfig\<close> stays pending and
  \<open>generateGatewayAgentConfig\<close> resolves.
\<close>

theorem write_stage_failures_not_propagated:
  "fs_writeFile sys_wfail ''/etc/iot/agent.json'' agent_text0 = Some ''EACCES''
   \<and> writeConfig cfg0 sys_wfail b1 ''gateway_agent_conf'' agent_text0
       = (Rejected (WriteError ''/etc/iot/agent.json'' ''EACCES''),
          [Stat ''/etc/iot''],
          [Log LDebug ''Parent directory for file exists: [%s]'',
           Log LDebug ''Writing config data to file: [%s]'',
           WriteFile ''/etc/iot/agent.json'' agent_text0,
           LogError (WriteError ''/etc/iot/agent.json'' ''EACCES''),
           Log LInfo ''Config file written successfully: [%s]'',
           Log LDebug ''Config data: [%s]''])
   \<and> fst (generateGatewayAgentConfig cfg0 sys_wfail b0) = Resolved ()
   \<and> writes (snd (snd (generateGatewayAgentConfig cfg0 sys_wfail b0)))
       = [(''/etc/iot/agent.json'', agent_text0)]
   \<and> fst (ensureConfig cfg0 sys_nodir b0 ''hostapd_conf'')
       = Rejected (DirNotFound ''/etc/hostapd'' ''ENOENT'')
   \<and> fst (writeConfig cfg0 sys_nodir b0 ''hostapd_conf'' hostapd_text0) = Pending
   \<and> fst (ensureConfig cfg0 sys0 b0 ''wifi_conf'') = Rejected NotApplicable
   \<and> fst (writeConfig cfg0 sys0 b0 ''wifi_conf'' hostapd_text0) = Pending
   \<and> fst (generateHostApConfig cfg0 sys_nodir b0) = Pending
   \<and> fst (generateGatewayAgentConfig cfg0 sys_nodir b0) = Resolved ()"
  by code_simp

end
